theory Spec2Isabelle
  imports Main "HOL-Library.Extended_Nat"
begin

section \<open>JavaScript values\<close>

text \<open>
  The adapter of \<^verbatim>\<open>src/sdk/github.js\<close> handles JSON bodies, strings that may be
  \<^verbatim>\<open>undefined\<close>, promises and a handful of module variables. A \<open>jsval\<close> is a value as
  \<^verbatim>\<open>response.json()\<close> yields it, together with \<^verbatim>\<open>undefined\<close> (what reading a missing
  property gives). Numbers are integers here: the adapter only ever tests a number
  for being zero. An object lists its properties; a property listed twice has the
  value of its first entry.
\<close>

datatype jsval =
    JUndefined
  | JNull
  | JBool bool
  | JNum int
  | JStr string
  | JArr "jsval list"
  | JObj "(string \<times> jsval) list"

text \<open>What \<^verbatim>\<open>if (v)\<close>, \<^verbatim>\<open>!v\<close> and \<^verbatim>\<open>v || w\<close> test.\<close>

fun truthy :: "jsval \<Rightarrow> bool" where
  "truthy JUndefined = False"
| "truthy JNull = False"
| "truthy (JBool b) = b"
| "truthy (JNum n) = (n \<noteq> 0)"
| "truthy (JStr s) = (s \<noteq> [])"
| "truthy (JArr xs) = True"
| "truthy (JObj kvs) = True"

definition js_or :: "jsval \<Rightarrow> jsval \<Rightarrow> jsval" where
  "js_or a b = (if truthy a then a else b)"

text \<open>Exceptions a JavaScript engine, \<^verbatim>\<open>fetch\<close> or a library throws.\<close>

datatype exn = TypeError | SyntaxError | OtherError string

text \<open>
  Reading \<^verbatim>\<open>v.k\<close>: a TypeError on \<^verbatim>\<open>undefined\<close> and \<^verbatim>\<open>null\<close>, the property of an
  object, and \<^verbatim>\<open>undefined\<close> for a property that is not there (the adapter reads
  \<^verbatim>\<open>error\<close>, \<^verbatim>\<open>token\<close>, \<^verbatim>\<open>message\<close>, \<^verbatim>\<open>errors\<close>, \<^verbatim>\<open>data\<close>, \<^verbatim>\<open>viewer\<close> and the viewer's
  fields, none of which a string, number, boolean or array has).
\<close>

fun get_field :: "jsval \<Rightarrow> string \<Rightarrow> exn + jsval" where
  "get_field JUndefined k = Inl TypeError"
| "get_field JNull k = Inl TypeError"
| "get_field (JObj kvs) k = Inr (case map_of kvs k of None \<Rightarrow> JUndefined | Some v \<Rightarrow> v)"
| "get_field (JBool b) k = Inr JUndefined"
| "get_field (JNum n) k = Inr JUndefined"
| "get_field (JStr s) k = Inr JUndefined"
| "get_field (JArr xs) k = Inr JUndefined"

text \<open>
  \<^verbatim>\<open>'k' in v\<close> for a parsed body: the object lists the property, whatever its value.
\<close>

fun has_field :: "jsval \<Rightarrow> string \<Rightarrow> bool" where
  "has_field (JObj kvs) k = (k \<in> fst ` set kvs)"
| "has_field v k = False"

text \<open>
  The configuration's fields and the module variables that hold them are strings
  or \<^verbatim>\<open>undefined\<close> (\<open>None\<close>). \<open>present\<close> is their truthiness, \<open>interpolate\<close> is
  \<^verbatim>\<open>${v}\<close> in a template literal, \<open>as_jsval\<close> is the value itself.
\<close>

definition present :: "string option \<Rightarrow> bool" where
  "present v = (case v of None \<Rightarrow> False | Some s \<Rightarrow> s \<noteq> [])"

definition interpolate :: "string option \<Rightarrow> string" where
  "interpolate v = (case v of None \<Rightarrow> ''undefined'' | Some s \<Rightarrow> s)"

definition as_jsval :: "string option \<Rightarrow> jsval" where
  "as_jsval v = (case v of None \<Rightarrow> JUndefined | Some s \<Rightarrow> JStr s)"

section \<open>Errors, promises and effects\<close>

text \<open>The \<^verbatim>\<open>error\<close> property of an error object: \<^verbatim>\<open>null\<close>, a JSON body or a caught exception.\<close>

datatype cause = NoCause | JsonCause jsval | ExnCause exn

record rsl_error =
  provider :: string
  type :: string
  description :: string
  error :: cause

text \<open>
  What a promise is rejected with: an error object built by \<^verbatim>\<open>rslError\<close>, a bare
  string, or an exception thrown inside the promise's executor.
\<close>

datatype rejection = RslError rsl_error | BareString string | Thrown exn

text \<open>
  Modelled from the spec: the helper \<^verbatim>\<open>rslError\<close> of \<^verbatim>\<open>../utils\<close> is not among the
  sources; the spec calls it error object construction, a structured object carrying
  provider name, kind, human description, and optional cause.
\<close>

definition rslError :: "rsl_error \<Rightarrow> rejection" where
  "rslError errorObject = RslError errorObject"

text \<open>
  A promise, by how it ends: \<open>Pending\<close> is the promise that never settles.
\<close>

datatype 'a promise = Resolved 'a | Rejected rejection | Pending

text \<open>
  The \<^verbatim>\<open>Authorization\<close> header is the template \<^verbatim>\<open>Bearer ${v}\<close>; the model keeps the
  value \<open>v\<close> that is interpolated. A POST carries the address, the header and the
  object given to \<^verbatim>\<open>JSON.stringify\<close>.
\<close>

datatype authorization = Bearer jsval

datatype request = GET string | POST string authorization jsval

text \<open>
  How \<^verbatim>\<open>window.fetch(...).then((response) => response.json())\<close> ends: \<^verbatim>\<open>fetch\<close>
  rejects; or a response arrives, with its HTTP status and the outcome of
  \<^verbatim>\<open>json()\<close>; or nothing ever arrives. Building the request itself (the address,
  \<^verbatim>\<open>new Headers\<close>, \<^verbatim>\<open>JSON.stringify\<close>) is taken not to throw.
\<close>

datatype fetch_result = Failed exn | Response nat "exn + jsval" | Unsettled

datatype effect = Fetch request | WindowOpen "string option" string

section \<open>The environment and the module variables\<close>

text \<open>
  The browser and the \<^verbatim>\<open>uuid\<close> package are outside the repository and are parameters:
  the query parameters of the current location, \<^verbatim>\<open>uuid(name, uuid.URL)\<close> (which
  may throw), and the network.
\<close>

record env =
  location_search :: "string \<Rightarrow> string option"
  uuid :: "string option \<Rightarrow> exn + string"
  window_fetch :: "request \<Rightarrow> fetch_result"

text \<open>
  Modelled from the spec: the helper \<^verbatim>\<open>getQueryStringValue\<close> of \<^verbatim>\<open>../utils\<close> is not
  among the sources; the spec calls it query-string parsing, reading a query parameter
  of the current location, which may be absent.
\<close>

definition getQueryStringValue :: "env \<Rightarrow> string \<Rightarrow> string option" where
  "getQueryStringValue e k = location_search e k"

record config =
  appId :: "string option"
  redirect :: "string option"
  gatekeeper :: "string option"

record session =
  oauth :: bool
  gatekeeperURL :: "string option"
  githubAccessToken :: jsval
  githubAppId :: "string option"
  githubAuth :: "string option"
  githubRedirect :: "string option"

definition GITHUB_API :: string where
  "GITHUB_API = ''https://api.github.com/graphql''"

text \<open>The module variables as the module declares them.\<close>

definition initial :: session where
  "initial = \<lparr>oauth = False, gatekeeperURL = None, githubAccessToken = JUndefined,
     githubAppId = None, githubAuth = None, githubRedirect = None\<rparr>"

section \<open>The adapter\<close>

text \<open>
  Every operation returns how its promise ends and the effects it had, in order;
  \<open>load\<close>, the only one that assigns module variables, returns them too.
\<close>

definition access_token_error :: "cause \<Rightarrow> string \<Rightarrow> rejection" where
  "access_token_error c d =
     rslError \<lparr>provider = ''github'', type = ''access_token'', description = d, error = c\<rparr>"

definition getAccessToken :: "env \<Rightarrow> session \<Rightarrow> jsval promise \<times> effect list" where
  "getAccessToken e s =
     (let authorizationCode = getQueryStringValue e ''code'' in
      if \<not> present authorizationCode
      then (Rejected (BareString ''Authorization code not found''), [])
      else
        let req = GET (interpolate (gatekeeperURL s) @ ''/authenticate/''
                        @ interpolate authorizationCode);
            caught = (\<lambda>x. Rejected (access_token_error (ExnCause x)
                        ''Failed to fetch user data due to window.fetch() error''));
            refused = (\<lambda>json. Rejected (access_token_error (JsonCause json)
                        ''Got error from fetch access token''))
        in ((case window_fetch e req of
               Failed x \<Rightarrow> caught x
             | Unsettled \<Rightarrow> Pending
             | Response st (Inl x) \<Rightarrow> caught x
             | Response st (Inr json) \<Rightarrow>
                 (case get_field json ''error'' of
                    Inl x \<Rightarrow> caught x
                  | Inr err \<Rightarrow>
                      if truthy err then refused json
                      else (case get_field json ''token'' of
                              Inl x \<Rightarrow> caught x
                            | Inr tok \<Rightarrow>
                                if \<not> truthy tok then refused json else Resolved tok))),
            [Fetch req]))"

text \<open>The two template literals of \<open>load\<close>: the escaped callback address and the
  authorization address.\<close>

definition callback_url :: "string option \<Rightarrow> string" where
  "callback_url target = interpolate target @ ''%3FrslCallback%3Dgithub''"

definition authorize_url :: "string option \<Rightarrow> string option \<Rightarrow> string \<Rightarrow> string" where
  "authorize_url client_id redirect_uri state =
     ''http://github.com/login/oauth/authorize?client_id='' @ interpolate client_id
     @ ''&redirect_uri='' @ interpolate redirect_uri
     @ ''&scope=user&state='' @ state"

definition load :: "env \<Rightarrow> config \<Rightarrow> session \<Rightarrow> jsval promise \<times> session \<times> effect list" where
  "load e c s =
     (if \<not> present (appId c)
      then (Rejected (rslError \<lparr>provider = ''github'', type = ''load'',
              description = ''Cannot load SDK without appId'', error = NoCause\<rparr>), s, [])
      else
        let s1 = s\<lparr>githubAppId := appId c\<rparr> in
        if present (gatekeeper c)
        then
          let s2 = s1\<lparr>gatekeeperURL := gatekeeper c, oauth := True,
                     githubRedirect := Some (callback_url (redirect c))\<rparr>
          in (case uuid e (redirect c) of
                Inl x \<Rightarrow> (Rejected (Thrown x), s2, [])
              | Inr state \<Rightarrow>
                  let s3 = s2\<lparr>githubAuth := Some
                             (authorize_url (githubAppId s2) (githubRedirect s2) state)\<rparr>
                  in if getQueryStringValue e ''rslCallback'' = Some ''github''
                     then (case getAccessToken e s3 of
                             (Resolved accessToken, fx) \<Rightarrow>
                               (Resolved accessToken, s3\<lparr>githubAccessToken := accessToken\<rparr>, fx)
                           | (Rejected r, fx) \<Rightarrow> (Rejected r, s3, fx)
                           | (Pending, fx) \<Rightarrow> (Pending, s3, fx))
                     else (Resolved JUndefined, s3, []))
        else (Resolved JUndefined, s1, []))"

definition check_login_error :: "cause \<Rightarrow> string \<Rightarrow> rejection" where
  "check_login_error c d =
     rslError \<lparr>provider = ''github'', type = ''check_login'', description = d, error = c\<rparr>"

text \<open>
  \<open>checkLogin\<close> takes the truthiness of its argument (\<open>False\<close> when it is left
  out), and calls \<open>login\<close>, which calls \<open>checkLogin()\<close>.
\<close>

function checkLogin :: "env \<Rightarrow> session \<Rightarrow> bool \<Rightarrow> jsval promise \<times> effect list"
  and login :: "env \<Rightarrow> session \<Rightarrow> jsval promise \<times> effect list" where
  "checkLogin e s autoLogin =
     (if autoLogin then login e s
      else if \<not> truthy (githubAccessToken s) \<and> oauth s
      then (Rejected (rslError \<lparr>provider = ''github'', type = ''access_token'',
              description = ''No access token available'', error = NoCause\<rparr>), [])
      else
        let req = POST GITHUB_API
                    (Bearer (js_or (githubAccessToken s) (as_jsval (githubAppId s))))
                    (JObj [(''query'', JStr ''query { viewer { id, name, email, avatarUrl } }'')]);
            caught = Rejected (check_login_error NoCause
                        ''Failed to fetch user data due to window.fetch() error'');
            refused = (\<lambda>json. Rejected (check_login_error (JsonCause json)
                        ''Failed to fetch user data''))
        in ((case window_fetch e req of
               Failed x \<Rightarrow> caught
             | Unsettled \<Rightarrow> Pending
             | Response st (Inl x) \<Rightarrow> caught
             | Response st (Inr json) \<Rightarrow>
                 (case get_field json ''message'' of
                    Inl x \<Rightarrow> caught
                  | Inr message \<Rightarrow>
                      if truthy message then refused json
                      else (case get_field json ''errors'' of
                              Inl x \<Rightarrow> caught
                            | Inr errors \<Rightarrow>
                                if truthy errors then refused json else Resolved json))),
            [Fetch req]))"
| "login e s =
     (case checkLogin e s False of
        (Resolved response, fx) \<Rightarrow> (Resolved response, fx)
      | (Rejected err, fx) \<Rightarrow>
          if \<not> oauth s then (Rejected err, fx)
          else (Pending, fx @ [WindowOpen (githubAuth s) ''_self''])
      | (Pending, fx) \<Rightarrow> (Pending, fx))"
  by pat_completeness auto
termination
  by (relation "measure (\<lambda>x. case x of Inl (e, s, autoLogin) \<Rightarrow> (if autoLogin then 2 else 0)
                                    | Inr (e, s) \<Rightarrow> 1)") auto

section \<open>The profile normalizer\<close>

text \<open>\<^verbatim>\<open>Infinity\<close> is \<open>\<infinity>\<close> of the extended naturals.\<close>

record profile =
  id' :: jsval
  name :: jsval
  firstName :: jsval
  lastName :: jsval
  email :: jsval
  profilePicURL :: jsval

record token =
  accessToken :: jsval
  expiresAt :: enat

record user =
  profile :: profile
  token :: token

text \<open>
  The parameter pattern \<^verbatim>\<open>{ data: { viewer } }\<close> reads \<^verbatim>\<open>data\<close> of the argument and
  \<^verbatim>\<open>viewer\<close> of that; each read, and those of the viewer's fields, throws on
  \<^verbatim>\<open>undefined\<close> and \<^verbatim>\<open>null\<close>.
\<close>

definition generateUser :: "session \<Rightarrow> jsval \<Rightarrow> exn + user" where
  "generateUser s response =
     (case get_field response ''data'' of
        Inl x \<Rightarrow> Inl x
      | Inr data \<Rightarrow>
     (case get_field data ''viewer'' of
        Inl x \<Rightarrow> Inl x
      | Inr viewer \<Rightarrow>
     (case get_field viewer ''id'' of
        Inl x \<Rightarrow> Inl x
      | Inr viewer_id \<Rightarrow>
     (case get_field viewer ''name'' of
        Inl x \<Rightarrow> Inl x
      | Inr viewer_name \<Rightarrow>
     (case get_field viewer ''email'' of
        Inl x \<Rightarrow> Inl x
      | Inr viewer_email \<Rightarrow>
     (case get_field viewer ''avatarUrl'' of
        Inl x \<Rightarrow> Inl x
      | Inr viewer_avatarUrl \<Rightarrow>
          Inr \<lparr>profile = \<lparr>id' = viewer_id, name = viewer_name, firstName = viewer_name,
                   lastName = viewer_name, email = viewer_email,
                   profilePicURL = viewer_avatarUrl\<rparr>,
               token = \<lparr>accessToken = js_or (githubAccessToken s) (as_jsval (githubAppId s)),
                   expiresAt = \<infinity>\<rparr>\<rparr>))))))"

section \<open>Example environments\<close>

text \<open>
  A configuration for the redirect flow and one for the direct flow, a \<^verbatim>\<open>uuid\<close> that
  throws on \<^verbatim>\<open>undefined\<close> and returns a version-5 UUID otherwise, a browser with given
  query parameters whose network answers every request the same way, the query
  parameters of a callback with and without its code, a viewer's answer, and the
  request \<open>checkLogin\<close> sends, by its credential.
\<close>

definition example_config :: config where
  "example_config = \<lparr>appId = Some ''app'', redirect = Some ''https://example.org/'',
     gatekeeper = Some ''https://relay.example.org''\<rparr>"

definition direct_config :: config where
  "direct_config = \<lparr>appId = Some ''app'', redirect = None, gatekeeper = None\<rparr>"

definition example_uuid :: "string option \<Rightarrow> exn + string" where
  "example_uuid n = (case n of None \<Rightarrow> Inl TypeError
                     | Some r \<Rightarrow> Inr ''6ba7b811-9dad-51d1-80b4-00c04fd430c8'')"

definition browser :: "(string \<Rightarrow> string option) \<Rightarrow> fetch_result \<Rightarrow> env" where
  "browser q r = \<lparr>location_search = q, uuid = example_uuid, window_fetch = (\<lambda>req. r)\<rparr>"

definition no_query :: "string \<Rightarrow> string option" where
  "no_query = Map.empty"

definition callback_query :: "string \<Rightarrow> string option" where
  "callback_query = [''rslCallback'' \<mapsto> ''github'', ''code'' \<mapsto> ''ABC123'']"

definition no_code_query :: "string \<Rightarrow> string option" where
  "no_code_query = [''rslCallback'' \<mapsto> ''github'']"

definition ada_response :: jsval where
  "ada_response = JObj [(''data'', JObj [(''viewer'',
     JObj [(''id'', JStr ''1''), (''name'', JStr ''Ada''), (''email'', JStr ''a@x.com''),
           (''avatarUrl'', JStr ''u'')])])]"

definition viewer_request :: "jsval \<Rightarrow> request" where
  "viewer_request credential = POST GITHUB_API (Bearer credential)
     (JObj [(''query'', JStr ''query { viewer { id, name, email, avatarUrl } }'')])"

text \<open>The module variables after \<open>load\<close> of the two configurations, away from a callback.\<close>

definition direct_session :: session where
  "direct_session = fst (snd (load (browser no_query Unsettled) direct_config initial))"

definition redirect_session :: session where
  "redirect_session = fst (snd (load (browser no_query Unsettled) example_config initial))"

section \<open>Unfolding the operations\<close>

declare checkLogin.simps [simp del] login.simps [simp del]

lemmas checkLogin_False = checkLogin.simps [of _ _ False, simplified]

lemmas examples =
  example_config_def direct_config_def browser_def callback_query_def no_query_def
  no_code_query_def example_uuid_def initial_def ada_response_def viewer_request_def

lemmas unfold_ops =
  load_def getAccessToken_def checkLogin_False login.simps Let_def present_def
  interpolate_def as_jsval_def js_or_def getQueryStringValue_def rslError_def
  access_token_error_def check_login_error_def callback_url_def authorize_url_def

lemma checkLogin_True: "checkLogin e s True = login e s"
  by (simp add: checkLogin.simps)

lemma probe_effects:
  "snd (checkLogin e s False) = [] \<or> (\<exists>req. snd (checkLogin e s False) = [Fetch req])"
  by (simp add: checkLogin_False Let_def)

lemma probe_opens_no_window: "WindowOpen u t \<notin> set (snd (checkLogin e s False))"
  using probe_effects [of e s] by auto

lemma load_callback:
  assumes "present (appId c)" "present (gatekeeper c)" "uuid e (redirect c) = Inr st"
    and "getQueryStringValue e ''rslCallback'' = Some ''github''"
  shows "load e c s =
    (let s3 = s\<lparr>githubAppId := appId c, gatekeeperURL := gatekeeper c, oauth := True,
                githubRedirect := Some (callback_url (redirect c)),
                githubAuth := Some (authorize_url (appId c) (Some (callback_url (redirect c))) st)\<rparr>
     in (case getAccessToken e s3 of
           (Resolved tok, fx) \<Rightarrow> (Resolved tok, s3\<lparr>githubAccessToken := tok\<rparr>, fx)
         | (Rejected r, fx) \<Rightarrow> (Rejected r, s3, fx)
         | (Pending, fx) \<Rightarrow> (Pending, s3, fx)))"
  using assms by (simp add: load_def Let_def split: prod.split promise.split)

lemma direct_session_eval:
  "direct_session = initial\<lparr>githubAppId := Some ''app''\<rparr>"
  by (simp add: direct_session_def examples load_def present_def)

lemma redirect_session_eval:
  "redirect_session = \<lparr>oauth = True, gatekeeperURL = Some ''https://relay.example.org'',
     githubAccessToken = JUndefined, githubAppId = Some ''app'',
     githubAuth = Some (authorize_url (Some ''app'')
       (Some ''https://example.org/%3FrslCallback%3Dgithub'')
       ''6ba7b811-9dad-51d1-80b4-00c04fd430c8''),
     githubRedirect = Some ''https://example.org/%3FrslCallback%3Dgithub''\<rparr>"
  by (simp add: redirect_session_def examples load_def present_def Let_def
      getQueryStringValue_def callback_url_def interpolate_def)

lemma example_config_valid:
  "present (appId example_config)" "present (gatekeeper example_config)"
  "uuid (browser q r) (redirect example_config) = Inr ''6ba7b811-9dad-51d1-80b4-00c04fd430c8''"
  by (simp_all add: examples present_def)

lemma callback_query_eval:
  "getQueryStringValue (browser callback_query r) ''rslCallback'' = Some ''github''"
  "getQueryStringValue (browser callback_query r) ''code'' = Some ''ABC123''"
  by (simp_all add: examples getQueryStringValue_def)

lemma relay_url_eval:
  "interpolate (gatekeeper example_config) @ ''/authenticate/ABC123''
     = ''https://relay.example.org/authenticate/ABC123''"
  by (simp add: examples interpolate_def)

section \<open>Configuration intake\<close>

text \<open>
  Claim C2. For every configuration whose appId is absent or the empty string,
  \<open>load\<close> rejects with the error object of type \<^verbatim>\<open>load\<close>, has no effect, and leaves
  every module variable (appId, the oauth flag, the authorization address, the access
  token) as it was.
\<close>

theorem load_without_appId:
  "load e (c\<lparr>appId := None\<rparr>) s =
     (Rejected (RslError \<lparr>provider = ''github'', type = ''load'',
        description = ''Cannot load SDK without appId'', error = NoCause\<rparr>), s, [])
   \<and> load e (c\<lparr>appId := Some ''''\<rparr>) s =
     (Rejected (RslError \<lparr>provider = ''github'', type = ''load'',
        description = ''Cannot load SDK without appId'', error = NoCause\<rparr>), s, [])"
  by (simp add: load_def present_def rslError_def)

section \<open>The callback\<close>

text \<open>
  Claim C1. With a valid configuration for the redirect flow (an appId, a gatekeeper
  and a redirect that \<^verbatim>\<open>uuid\<close> accepts) and a location whose query string has
  \<^verbatim>\<open>rslCallback=github\<close> and \<^verbatim>\<open>code=ABC123\<close>, \<open>load\<close> issues exactly one request, a GET
  of the gatekeeper's \<^verbatim>\<open>/authenticate/ABC123\<close>, however that request ends. If the
  relay answers with the body \<^verbatim>\<open>{token: "t1"}\<close>, under any HTTP status, \<open>load\<close> resolves
  with \<^verbatim>\<open>"t1"\<close> and stores it as \<open>githubAccessToken\<close>, and a following \<open>checkLogin()\<close>
  sends exactly one request, whose Authorization header is Bearer t1, not the appId.
\<close>

theorem load_callback_exchanges_code:
  assumes "present (appId c)" and "present (gatekeeper c)"
    and "uuid e (redirect c) = Inr st"
    and "getQueryStringValue e ''rslCallback'' = Some ''github''"
    and "getQueryStringValue e ''code'' = Some ''ABC123''"
  shows "snd (snd (load e c s)) =
           [Fetch (GET (interpolate (gatekeeper c) @ ''/authenticate/ABC123''))]
     \<and> (\<forall>status. window_fetch e (GET (interpolate (gatekeeper c) @ ''/authenticate/ABC123''))
            = Response status (Inr (JObj [(''token'', JStr ''t1'')]))
          \<longrightarrow> fst (load e c s) = Resolved (JStr ''t1'')
            \<and> githubAccessToken (fst (snd (load e c s))) = JStr ''t1''
            \<and> (\<forall>e'. snd (checkLogin e' (fst (snd (load e c s))) False) =
                  [Fetch (POST GITHUB_API (Bearer (JStr ''t1''))
                     (JObj [(''query'', JStr ''query { viewer { id, name, email, avatarUrl } }'')]))]))"
proof -
  let ?req = "GET (interpolate (gatekeeper c) @ ''/authenticate/ABC123'')"
  have fx: "snd (snd (load e c s)) = [Fetch ?req]"
    using assms
    by (simp add: load_callback getAccessToken_def Let_def present_def interpolate_def
        split: prod.splits promise.splits)
  have tok: "fst (load e c s) = Resolved (JStr ''t1'')
      \<and> githubAccessToken (fst (snd (load e c s))) = JStr ''t1''"
    if "window_fetch e ?req = Response status (Inr (JObj [(''token'', JStr ''t1'')]))"
    for status
    using assms that
    by (simp add: load_callback getAccessToken_def Let_def present_def interpolate_def)
  have probe: "snd (checkLogin e' s' False) =
      [Fetch (POST GITHUB_API (Bearer (JStr ''t1''))
         (JObj [(''query'', JStr ''query { viewer { id, name, email, avatarUrl } }'')]))]"
    if "githubAccessToken s' = JStr ''t1''" for e' s'
    using that by (simp add: checkLogin_False Let_def js_or_def)
  show ?thesis
    using fx tok probe by blast
qed

theorem load_callback_exchanges_code_witness:
  "snd (snd (load (browser callback_query (Response 200 (Inr (JObj [(''token'', JStr ''t1'')]))))
       example_config initial))
     = [Fetch (GET ''https://relay.example.org/authenticate/ABC123'')]
   \<and> fst (load (browser callback_query (Response 200 (Inr (JObj [(''token'', JStr ''t1'')]))))
       example_config initial) = Resolved (JStr ''t1'')
   \<and> githubAccessToken (fst (snd (load
         (browser callback_query (Response 200 (Inr (JObj [(''token'', JStr ''t1'')]))))
         example_config initial))) = JStr ''t1''
   \<and> snd (checkLogin (browser no_query Unsettled) (fst (snd (load
         (browser callback_query (Response 200 (Inr (JObj [(''token'', JStr ''t1'')]))))
         example_config initial))) False)
     = [Fetch (viewer_request (JStr ''t1''))]"
proof -
  let ?e = "browser callback_query (Response 200 (Inr (JObj [(''token'', JStr ''t1'')])))"
  have relay: "window_fetch ?e (GET (interpolate (gatekeeper example_config)
      @ ''/authenticate/ABC123'')) = Response 200 (Inr (JObj [(''token'', JStr ''t1'')]))"
    by (simp add: browser_def)
  show ?thesis
    using load_callback_exchanges_code
      [OF example_config_valid callback_query_eval, of _ initial] relay
    by (simp add: relay_url_eval viewer_request_def)
qed




text \<open>
  Claim C9. A callback without its \<^verbatim>\<open>code\<close>: \<open>getAccessToken\<close>, and with it \<open>load\<close>, is
  rejected with the bare string \<^verbatim>\<open>'Authorization code not found'\<close>, which is not an
  error object of type \<^verbatim>\<open>access_token\<close> as every other rejection of \<open>getAccessToken\<close> is.
\<close>

theorem missing_code_rejects_with_bare_string:
  "getAccessToken (browser no_code_query r) s =
     (Rejected (BareString ''Authorization code not found''), [])
   \<and> fst (load (browser no_code_query r) example_config initial) =
     Rejected (BareString ''Authorization code not found'')
   \<and> (\<forall>err. fst (load (browser no_code_query r) example_config initial)
          \<noteq> Rejected (RslError err))"
  by (simp add: examples unfold_ops)

text \<open>
  Claim C10. When the \<^verbatim>\<open>code\<close> query parameter is absent or empty, \<open>getAccessToken\<close>
  rejects (with the string \<^verbatim>\<open>'Authorization code not found'\<close>) and issues no request:
  the rejection comes before \<^verbatim>\<open>window.fetch\<close>. No \<open>load\<close> issues a request then, and
  the \<open>load\<close> of a valid redirect configuration on a callback ends in that rejection.
\<close>

theorem missing_code_contacts_no_relay:
  "\<not> present (getQueryStringValue e ''code'') \<Longrightarrow>
   getAccessToken e s = (Rejected (BareString ''Authorization code not found''), [])
   \<and> snd (snd (load e c s')) = []
   \<and> (present (appId c) \<and> present (gatekeeper c) \<and> (\<exists>st. uuid e (redirect c) = Inr st)
        \<and> getQueryStringValue e ''rslCallback'' = Some ''github''
      \<longrightarrow> fst (load e c s') = Rejected (BareString ''Authorization code not found''))"
proof -
  assume absent: "\<not> present (getQueryStringValue e ''code'')"
  then have rejected: "getAccessToken e s
      = (Rejected (BareString ''Authorization code not found''), [])" for s
    by (simp add: getAccessToken_def Let_def)
  have silent: "snd (snd (load e c s')) = []"
    by (simp add: load_def rejected Let_def split: sum.split)
  have passed_on: "fst (load e c s') = Rejected (BareString ''Authorization code not found'')"
    if "present (appId c)" "present (gatekeeper c)" "uuid e (redirect c) = Inr st"
      "getQueryStringValue e ''rslCallback'' = Some ''github''" for st
    using that by (simp add: load_callback rejected Let_def)
  show ?thesis
    using rejected silent passed_on by blast
qed

theorem missing_code_contacts_no_relay_witness:
  "\<not> present (getQueryStringValue (browser no_code_query Unsettled) ''code'')
   \<and> getAccessToken (browser no_code_query Unsettled) redirect_session
       = (Rejected (BareString ''Authorization code not found''), [])
   \<and> snd (snd (load (browser no_code_query Unsettled) example_config initial)) = []
   \<and> fst (load (browser no_code_query Unsettled) example_config initial)
       = Rejected (BareString ''Authorization code not found'')"
proof -
  have absent: "\<not> present (getQueryStringValue (browser no_code_query Unsettled) ''code'')"
    by (simp add: examples present_def getQueryStringValue_def)
  have callback: "getQueryStringValue (browser no_code_query Unsettled) ''rslCallback''
      = Some ''github''"
    by (simp add: examples getQueryStringValue_def)
  show ?thesis
    using absent callback example_config_valid(1,2)
      example_config_valid(3) [of no_code_query Unsettled]
      missing_code_contacts_no_relay [OF absent,
        where s = redirect_session and c = example_config and s' = initial]
    by blast
qed

section \<open>The session prober\<close>

text \<open>
  Claim C3. In the redirect flow (\<open>oauth\<close> set) with no access token recorded,
  \<open>checkLogin(false)\<close> rejects with the error object of type \<^verbatim>\<open>access_token\<close> and
  description \<^verbatim>\<open>'No access token available'\<close>, and issues no request.
\<close>

theorem checkLogin_without_token:
  "oauth s \<Longrightarrow> \<not> truthy (githubAccessToken s) \<Longrightarrow>
   checkLogin e s False =
     (Rejected (RslError \<lparr>provider = ''github'', type = ''access_token'',
        description = ''No access token available'', error = NoCause\<rparr>), [])"
  by (simp add: checkLogin_False rslError_def)

theorem checkLogin_without_token_witness:
  "oauth redirect_session \<and> githubAccessToken redirect_session = JUndefined
   \<and> checkLogin (browser no_query (Response 200 (Inr ada_response))) redirect_session False =
     (Rejected (RslError \<lparr>provider = ''github'', type = ''access_token'',
        description = ''No access token available'', error = NoCause\<rparr>), [])"
proof -
  have mode: "oauth redirect_session"
    and unset: "githubAccessToken redirect_session = JUndefined"
    by (simp_all add: redirect_session_eval)
  have falsy: "\<not> truthy (githubAccessToken redirect_session)"
    by (simp add: unset)
  show ?thesis
    using mode unset checkLogin_without_token [OF mode falsy] by blast
qed

text \<open>
  Claim C5, as amended. When the probe is sent and the parsed body of the answer has a
  truthy \<^verbatim>\<open>message\<close> or \<^verbatim>\<open>errors\<close> property, \<open>checkLogin\<close> rejects with the error
  object of type \<^verbatim>\<open>check_login\<close> carrying that body, whatever the HTTP status; for any
  other body whose properties can be read (any body but \<^verbatim>\<open>null\<close>) it resolves with
  the body, unmodified.
\<close>

theorem checkLogin_truthy_error_fields:
  assumes "truthy (githubAccessToken s) \<or> \<not> oauth s"
    and "window_fetch e (POST GITHUB_API
           (Bearer (js_or (githubAccessToken s) (as_jsval (githubAppId s))))
           (JObj [(''query'', JStr ''query { viewer { id, name, email, avatarUrl } }'')]))
         = Response status (Inr json)"
    and "get_field json ''message'' = Inr message"
    and "get_field json ''errors'' = Inr errors"
  shows "fst (checkLogin e s False) =
    (if truthy message \<or> truthy errors
     then Rejected (RslError \<lparr>provider = ''github'', type = ''check_login'',
            description = ''Failed to fetch user data'', error = JsonCause json\<rparr>)
     else Resolved json)"
  using assms by (auto simp: checkLogin_False Let_def check_login_error_def rslError_def)

theorem checkLogin_truthy_error_fields_witness:
  "fst (checkLogin
      (browser no_query (Response 401 (Inr (JObj [(''message'', JStr ''Bad credentials'')]))))
      direct_session False)
   = Rejected (RslError \<lparr>provider = ''github'', type = ''check_login'',
       description = ''Failed to fetch user data'',
       error = JsonCause (JObj [(''message'', JStr ''Bad credentials'')])\<rparr>)
   \<and> fst (checkLogin (browser no_query (Response 200 (Inr ada_response))) direct_session False)
   = Resolved ada_response"
proof -
  let ?bad = "JObj [(''message'', JStr ''Bad credentials'')]"
  have sent: "truthy (githubAccessToken direct_session) \<or> \<not> oauth direct_session"
    by (simp add: direct_session_eval initial_def)
  have answer: "window_fetch (browser no_query r) (POST GITHUB_API
        (Bearer (js_or (githubAccessToken direct_session) (as_jsval (githubAppId direct_session))))
        (JObj [(''query'', JStr ''query { viewer { id, name, email, avatarUrl } }'')])) = r"
    for r
    by (simp add: browser_def)
  have bad: "get_field ?bad ''message'' = Inr (JStr ''Bad credentials'')"
    "get_field ?bad ''errors'' = Inr JUndefined"
    by simp_all
  have good: "get_field ada_response ''message'' = Inr JUndefined"
    "get_field ada_response ''errors'' = Inr JUndefined"
    by (simp_all add: ada_response_def)
  have truth: "truthy (JStr ''Bad credentials'')" "\<not> truthy JUndefined"
    by simp_all
  show ?thesis
    using checkLogin_truthy_error_fields [OF sent answer bad]
      checkLogin_truthy_error_fields [OF sent answer good]
    by (simp only: truth if_True if_False simp_thms)
qed

text \<open>
  Claim C5 as it stands fails on a body that contains an \<^verbatim>\<open>errors\<close> property whose
  value is falsy: for \<^verbatim>\<open>{errors: null}\<close> the test \<^verbatim>\<open>json.message || json.errors\<close> is
  false and \<open>checkLogin\<close> resolves with the body.
\<close>

theorem checkLogin_falsy_errors_field_resolves:
  "has_field (JObj [(''errors'', JNull)]) ''errors''
   \<and> checkLogin (browser no_query (Response 200 (Inr (JObj [(''errors'', JNull)]))))
        direct_session False
     = (Resolved (JObj [(''errors'', JNull)]), [Fetch (viewer_request (JStr ''app''))])"
  by (simp add: direct_session_eval examples unfold_ops)

section \<open>The authorization launcher\<close>

text \<open>
  Claim C6. When the probe \<open>checkLogin()\<close> resolves, \<open>login\<close> resolves with the same
  value. When the probe rejects and no OAuth is configured, \<open>login\<close> rejects with the
  probe's own error and opens no window. When the probe rejects in the redirect flow,
  \<open>login\<close> opens the stored authorization address in the same window and its promise
  never settles.
\<close>

theorem login_follows_probe:
  "(checkLogin e s False = (Resolved v, fx) \<longrightarrow> login e s = (Resolved v, fx))
   \<and> (checkLogin e s False = (Rejected r, fx) \<and> \<not> oauth s
        \<longrightarrow> login e s = (Rejected r, fx) \<and> (\<forall>u t. WindowOpen u t \<notin> set fx))
   \<and> (checkLogin e s False = (Rejected r, fx) \<and> oauth s
        \<longrightarrow> login e s = (Pending, fx @ [WindowOpen (githubAuth s) ''_self'']))"
proof -
  have "\<forall>u t. WindowOpen u t \<notin> set fx" if "checkLogin e s False = (Rejected r, fx)"
    using probe_opens_no_window [of _ _ e s] that by simp
  then show ?thesis
    by (auto simp: login.simps)
qed

theorem login_follows_probe_witness:
  "login (browser no_query (Response 200 (Inr ada_response))) direct_session
     = (Resolved ada_response, [Fetch (viewer_request (JStr ''app''))])
   \<and> login (browser no_query (Failed (OtherError ''offline''))) direct_session
     = (Rejected (RslError \<lparr>provider = ''github'', type = ''check_login'',
          description = ''Failed to fetch user data due to window.fetch() error'',
          error = NoCause\<rparr>), [Fetch (viewer_request (JStr ''app''))])
   \<and> login (browser no_query Unsettled) redirect_session
     = (Pending, [WindowOpen (githubAuth redirect_session) ''_self''])
   \<and> githubAuth redirect_session = Some (authorize_url (Some ''app'')
         (Some ''https://example.org/%3FrslCallback%3Dgithub'')
         ''6ba7b811-9dad-51d1-80b4-00c04fd430c8'')"
proof -
  have resolved: "checkLogin (browser no_query (Response 200 (Inr ada_response)))
      direct_session False
    = (Resolved ada_response, [Fetch (viewer_request (JStr ''app''))])"
    by (simp add: direct_session_eval examples unfold_ops)
  have offline: "checkLogin (browser no_query (Failed (OtherError ''offline'')))
      direct_session False
    = (Rejected (RslError \<lparr>provider = ''github'', type = ''check_login'',
          description = ''Failed to fetch user data due to window.fetch() error'',
          error = NoCause\<rparr>), [Fetch (viewer_request (JStr ''app''))])"
    by (simp add: direct_session_eval examples unfold_ops)
  have direct: "\<not> oauth direct_session"
    by (simp add: direct_session_eval initial_def)
  have no_token: "checkLogin (browser no_query Unsettled) redirect_session False
    = (Rejected (RslError \<lparr>provider = ''github'', type = ''access_token'',
          description = ''No access token available'', error = NoCause\<rparr>), [])"
    by (simp add: redirect_session_eval unfold_ops)
  have mode: "oauth redirect_session"
    by (simp add: redirect_session_eval)
  have address: "githubAuth redirect_session = Some (authorize_url (Some ''app'')
         (Some ''https://example.org/%3FrslCallback%3Dgithub'')
         ''6ba7b811-9dad-51d1-80b4-00c04fd430c8'')"
    by (simp add: redirect_session_eval)
  show ?thesis
    using login_follows_probe [of "browser no_query (Response 200 (Inr ada_response))"
        direct_session ada_response "[Fetch (viewer_request (JStr ''app''))]"]
      login_follows_probe [of "browser no_query (Failed (OtherError ''offline''))"
        direct_session _ "[Fetch (viewer_request (JStr ''app''))]"
        "RslError \<lparr>provider = ''github'', type = ''check_login'',
          description = ''Failed to fetch user data due to window.fetch() error'',
          error = NoCause\<rparr>"]
      login_follows_probe [of "browser no_query Unsettled" redirect_session _ "[]"
        "RslError \<lparr>provider = ''github'', type = ''access_token'',
          description = ''No access token available'', error = NoCause\<rparr>"]
      resolved offline direct no_token mode address
    by (simp only: simp_thms append_Nil)
qed

section \<open>The profile normalizer\<close>

text \<open>
  Claim C7. \<open>generateUser\<close> has no effect and, on a response of the shape
  \<^verbatim>\<open>{data: {viewer: {...}}}\<close>, does not throw: it returns the user whose \<open>id\<close>, \<open>name\<close>,
  \<open>email\<close> and \<open>profilePicURL\<close> are the viewer's \<^verbatim>\<open>id\<close>, \<^verbatim>\<open>name\<close>, \<^verbatim>\<open>email\<close> and
  \<^verbatim>\<open>avatarUrl\<close>, whose \<open>firstName\<close> and \<open>lastName\<close> are both the viewer's \<^verbatim>\<open>name\<close>,
  whose access token is the stored one when there is one (truthy) and the stored
  appId otherwise, and whose token never expires. For the viewer
  \<^verbatim>\<open>{id: "1", name: "Ada", email: "a@x.com", avatarUrl: "u"}\<close> the user is as the claim
  gives it.
\<close>

theorem generateUser_maps_viewer:
  "(\<exists>viewer_id viewer_name viewer_email viewer_avatarUrl.
        get_field (JObj kvs) ''id'' = Inr viewer_id
      \<and> get_field (JObj kvs) ''name'' = Inr viewer_name
      \<and> get_field (JObj kvs) ''email'' = Inr viewer_email
      \<and> get_field (JObj kvs) ''avatarUrl'' = Inr viewer_avatarUrl
      \<and> generateUser s (JObj [(''data'', JObj [(''viewer'', JObj kvs)])])
        = Inr \<lparr>profile = \<lparr>id' = viewer_id, name = viewer_name, firstName = viewer_name,
                   lastName = viewer_name, email = viewer_email,
                   profilePicURL = viewer_avatarUrl\<rparr>,
               token = \<lparr>accessToken = (if truthy (githubAccessToken s) then githubAccessToken s
                                         else as_jsval (githubAppId s)),
                        expiresAt = \<infinity>\<rparr>\<rparr>)
   \<and> generateUser s
        (JObj [(''data'', JObj [(''viewer'',
           JObj [(''id'', JStr ''1''), (''name'', JStr ''Ada''), (''email'', JStr ''a@x.com''),
                 (''avatarUrl'', JStr ''u'')])])])
      = Inr \<lparr>profile = \<lparr>id' = JStr ''1'', name = JStr ''Ada'', firstName = JStr ''Ada'',
                 lastName = JStr ''Ada'', email = JStr ''a@x.com'', profilePicURL = JStr ''u''\<rparr>,
             token = \<lparr>accessToken = (if truthy (githubAccessToken s) then githubAccessToken s
                                       else as_jsval (githubAppId s)),
                      expiresAt = \<infinity>\<rparr>\<rparr>"
  by (simp add: generateUser_def js_or_def)

end
